theory Spec2Isabelle
  imports Main "HOL-Library.Word"
begin

section \<open>The GPU facade of gpu.js (src/gpu.js)\<close>

text \<open>
  The class \<open>GPU\<close> selects a backend runner, creates kernels through it, combines
  kernels into a pipeline whose last output is read back and reshaped, and wraps a kernel
  call into a promise. The runners, the kernel class, \<open>utils\<close> and WebGL itself are
  collaborators that are not part of this file of the repository; what the facade needs
  of them is either a parameter of the definitions below or a definition marked as
  modelled from the written specification.
\<close>

subsection \<open>Values, errors and objects\<close>

text \<open>
  JavaScript values as far as the facade distinguishes them. Numbers are restricted to
  integers; objects and functions are known by a reference.
\<close>

type_synonym ref = nat

datatype jsval =
    Undefined
  | Null
  | Bool bool
  | Num int
  | Str string
  | Fun ref
  | Obj ref

text \<open>
  What the code can throw: \<open>TypeError\<close> and \<open>RangeError\<close> are raised by the engine
  (a property read on \<open>undefined\<close> or \<open>null\<close>, an invalid array length),
  \<open>Error msg\<close> is \<open>throw new Error(msg)\<close>, \<open>Thrown s\<close> is the \<open>throw\<close> of a string
  literal, \<open>External v\<close> is whatever a collaborator (a kernel, a combinator, the runner)
  throws. \<open>SplitUnspecified\<close> stands for a split with chunk length 0, for which the
  specification of \<open>utils.splitArray\<close> gives no result.
\<close>

datatype error =
    TypeError
  | RangeError
  | Error string
  | Thrown string
  | External jsval
  | SplitUnspecified

text \<open>
  A kernel object, with the attributes the facade reads or sets. \<open>None\<close> is
  \<open>undefined\<close>: a kernel that was never built has neither \<open>texSize\<close> nor
  \<open>threadDim\<close>.
\<close>

record kernel =
  canvas :: "ref option"
  webGl :: "ref option"
  outputToTexture :: bool
  floatOutput :: bool
  texSize :: "(nat \<times> nat) option"
  threadDim :: "nat list option"
  dimensions :: "nat list"

type_synonym kid = nat

text \<open>Kernels are mutable objects: a heap maps each kernel reference to its state.\<close>

type_synonym heap = "kid \<Rightarrow> kernel"

text \<open>
  Modelled from the spec: the setters of the kernel class, which is not in this file
  (``Kernel instance exposes: mutable \<open>outputToTexture\<close>, canvas / webGl-equivalent-context
  setters''). Each assigns its attribute and returns the kernel, as the chained calls of
  \<open>combineKernels\<close> require.
\<close>

definition setCanvas :: "ref option \<Rightarrow> kernel \<Rightarrow> kernel" where
  "setCanvas c k = k\<lparr>canvas := c\<rparr>"

definition setWebGl :: "ref option \<Rightarrow> kernel \<Rightarrow> kernel" where
  "setWebGl g k = k\<lparr>webGl := g\<rparr>"

definition setOutputToTexture :: "bool \<Rightarrow> kernel \<Rightarrow> kernel" where
  "setOutputToTexture b k = k\<lparr>outputToTexture := b\<rparr>"

subsection \<open>Construction\<close>

text \<open>
  The settings of the constructor; each property may be absent. A mode that is present
  is a string.
\<close>

record settings =
  s_canvas :: "ref option"
  s_webGl :: "ref option"
  s_mode :: "string option"

record runnerSettings =
  rs_canvas :: "ref option"
  rs_webGl :: "ref option"

datatype kernelClass = DefaultKernel | WebGLValidatorKernel

text \<open>
  The two runner classes; the second argument of \<open>WebGLRunner\<close> is its \<open>Kernel\<close>
  attribute, which the constructor overwrites for the validator mode.
\<close>

datatype runner =
    CPURunner runnerSettings
  | WebGLRunner runnerSettings kernelClass

text \<open>
  Modelled from the spec: the read-only \<open>mode\<close> of a runner, whose classes are not in
  this file (``\<open>mode -> Mode\<close> (read-only)'', with the modes \<open>cpu\<close> and \<open>gpu\<close>/\<open>webgl\<close>).
  Only whether it is \<open>cpu\<close> matters to the facade.
\<close>

fun runner_mode :: "runner \<Rightarrow> string" where
  "runner_mode (CPURunner _) = ''cpu''"
| "runner_mode (WebGLRunner _ _) = ''gpu''"

record GPU =
  gpu_canvas :: "ref option"
  gpu_webGl :: "ref option"
  kernelSynchronousExecutor :: "kid option"
  gpu_runner :: "runner option"

text \<open>
  \<open>String.prototype.toLowerCase\<close> on the ASCII letters; every other character is kept.
\<close>

definition lower_char :: "char \<Rightarrow> char" where
  "lower_char c =
     (let n = (of_char c :: nat) in if 65 \<le> n \<and> n \<le> 90 then char_of (n + 32) else c)"

definition toLowerCase :: "string \<Rightarrow> string" where
  "toLowerCase s = map lower_char s"

definition fallback_warning :: string where
  "fallback_warning = ''Warning: gpu not supported, falling back to cpu support''"

definition mode_not_defined :: "string \<Rightarrow> string" where
  "mode_not_defined m = CHR 0x22 # m @ CHR 0x22 # '' mode is not defined''"

definition no_settings :: settings where
  "no_settings = \<lparr>s_canvas = None, s_webGl = None, s_mode = None\<rparr>"

text \<open>
  \<open>settings.mode || 'webgl'\<close>: an absent mode and the empty string are both falsy.
\<close>

definition mode_or_default :: "string option \<Rightarrow> string" where
  "mode_or_default m = (case m of None \<Rightarrow> ''webgl'' | Some s \<Rightarrow> if s = [] then ''webgl'' else s)"

text \<open>
  The constructor. Its first argument is \<open>utils.isWebGlSupported\<close>, the value of the
  capability probe; the result is the list of warnings written to the console and either
  the error thrown or the new object.
\<close>

definition "constructor" :: "bool \<Rightarrow> settings option \<Rightarrow> string list \<times> (error + GPU)" where
  "constructor isWebGlSupported settings0 =
     (let settings = (case settings0 of None \<Rightarrow> no_settings | Some s \<Rightarrow> s);
          this = \<lparr>gpu_canvas = s_canvas settings, gpu_webGl = s_webGl settings,
                  kernelSynchronousExecutor = None, gpu_runner = None\<rparr>;
          mode0 = mode_or_default (s_mode settings);
          warnings = (if \<not> isWebGlSupported then [fallback_warning] else []);
          mode = (if \<not> isWebGlSupported then ''cpu'' else mode0);
          rs = \<lparr>rs_canvas = gpu_canvas this, rs_webGl = gpu_webGl this\<rparr>
      in if mode \<noteq> [] then
           (let m = toLowerCase mode in
            if m = ''cpu'' then (warnings, Inr (this\<lparr>gpu_runner := Some (CPURunner rs)\<rparr>))
            else if m = ''gpu'' \<or> m = ''webgl'' then
              (warnings, Inr (this\<lparr>gpu_runner := Some (WebGLRunner rs DefaultKernel)\<rparr>))
            else if m = ''webgl-validator'' then
              (warnings, Inr (this\<lparr>gpu_runner := Some (WebGLRunner rs WebGLValidatorKernel)\<rparr>))
            else (warnings, Inl (Error (mode_not_defined mode))))
         else (warnings, Inr this))"

text \<open>The getter \<open>mode\<close>: \<open>this._runner.mode\<close>.\<close>

definition mode :: "GPU \<Rightarrow> error + string" where
  "mode this = (case gpu_runner this of None \<Rightarrow> Inl TypeError | Some r \<Rightarrow> Inr (runner_mode r))"

subsection \<open>createKernel\<close>

text \<open>
  Modelled from the spec: \<open>utils.isFunction\<close>, which is not in this file (``\<open>fn\<close> is
  absent or not a callable value''): the callable values are the functions.
\<close>

fun isFunction :: "jsval \<Rightarrow> bool" where
  "isFunction (Fun _) = True"
| "isFunction _ = False"

text \<open>A settings object of \<open>createKernel\<close>, as the list of its properties.\<close>

type_synonym kernelSettings = "(string \<times> jsval) list"

text \<open>
  \<open>createKernel\<close>. The first argument is \<open>buildKernel\<close> of the runner classes: given
  the runner, the function, the settings and the heap it throws or returns a new kernel
  and the heap that holds it. The result is the error thrown, or the object with its
  executor assigned, the heap and the kernel returned.
\<close>

definition createKernel ::
  "(runner \<Rightarrow> jsval \<Rightarrow> kernelSettings \<Rightarrow> heap \<Rightarrow> error + kid \<times> heap) \<Rightarrow>
   GPU \<Rightarrow> heap \<Rightarrow> jsval \<Rightarrow> kernelSettings option \<Rightarrow> error + GPU \<times> heap \<times> kid" where
  "createKernel buildKernel this h fn settings =
     (if fn = Undefined then Inl (Thrown ''Missing fn parameter'')
      else if \<not> isFunction fn then Inl (Thrown ''fn parameter not a function'')
      else (case gpu_runner this of
              None \<Rightarrow> Inl TypeError
            | Some r \<Rightarrow>
                (case buildKernel r fn (case settings of None \<Rightarrow> [] | Some s \<Rightarrow> s) h of
                   Inl e \<Rightarrow> Inl e
                 | Inr (k, h') \<Rightarrow> Inr (this\<lparr>kernelSynchronousExecutor := Some k\<rparr>, h', k))))"

subsection \<open>combineKernels\<close>

text \<open>
  The arguments of \<open>combineKernels\<close> are the kernels \<open>ks\<close> followed by the combinator, so
  \<open>arguments.length - 1\<close> is \<open>length ks\<close>, \<open>arguments[arguments.length - 1]\<close> the
  combinator and \<open>arguments[arguments.length - 2]\<close> the last of \<open>ks\<close>, or \<open>undefined\<close>
  when there is no kernel. The function it returns is either the combinator it was given
  or a new closure over \<open>lastKernel\<close> and the combinator.
\<close>

datatype 'f callable =
    Given 'f
  | CombinedClosure "kid option" 'f

text \<open>The loop of lines 92 to 97, over \<open>arguments[0]\<close> to \<open>arguments[length - 2]\<close>.\<close>

fun configure_all :: "ref option \<Rightarrow> ref option \<Rightarrow> kid list \<Rightarrow> heap \<Rightarrow> heap" where
  "configure_all cv gl [] h = h"
| "configure_all cv gl (k # ks) h =
     configure_all cv gl ks (h(k := setOutputToTexture True (setWebGl gl (setCanvas cv (h k)))))"

text \<open>
  With no kernel, \<open>arguments[0]\<close> is the combinator itself, a function without the
  properties \<open>canvas\<close> and \<open>webGl\<close>: both reads give \<open>undefined\<close>.
\<close>

definition combineKernels ::
  "GPU \<Rightarrow> heap \<Rightarrow> kid list \<Rightarrow> 'f \<Rightarrow> error + heap \<times> 'f callable" where
  "combineKernels this h ks combinedKernel =
     (let lastKernel = (if ks = [] then None else Some (last ks)) in
      case mode this of
        Inl e \<Rightarrow> Inl e
      | Inr m \<Rightarrow>
          if m = ''cpu'' then Inr (h, Given combinedKernel)
          else
            (let cv = (case ks of [] \<Rightarrow> None | k0 # _ \<Rightarrow> canvas (h k0));
                 gl = (case ks of [] \<Rightarrow> None | k0 # _ \<Rightarrow> webGl (h k0))
             in Inr (configure_all cv gl ks h, CombinedClosure lastKernel combinedKernel)))"

subsection \<open>The closure returned by combineKernels\<close>

text \<open>
  The state the closure runs in: the kernels, and what \<open>gl.readPixels\<close> delivers for a
  context and a size, as floats (\<open>gl.FLOAT\<close>) and as bytes (\<open>gl.UNSIGNED_BYTE\<close>). The
  type \<open>'v\<close> is the type of the elements of a \<open>Float32Array\<close>.
\<close>

record 'v world =
  kernels :: heap
  float_pixels :: "ref \<Rightarrow> nat \<Rightarrow> nat \<Rightarrow> 'v list"
  byte_pixels :: "ref \<Rightarrow> nat \<Rightarrow> nat \<Rightarrow> 8 word list"

text \<open>
  A typed array of \<open>n\<close> elements is created filled with zeros; \<open>readPixels\<close> writes into
  it and cannot change its length.
\<close>

definition typed_array :: "nat \<Rightarrow> ('a::zero) list \<Rightarrow> 'a list" where
  "typed_array n data = take n data @ replicate (n - length data) 0"

text \<open>
  \<open>new Float32Array(bytes.buffer)\<close>: one element for each four bytes. How four bytes
  denote a float is the parameter \<open>cast\<close>.
\<close>

fun float32_view :: "(8 word list \<Rightarrow> 'v) \<Rightarrow> 8 word list \<Rightarrow> 'v list" where
  "float32_view cast (a # b # c # d # bytes) = cast [a, b, c, d] # float32_view cast bytes"
| "float32_view cast _ = []"

text \<open>Lines 101 to 112: the flat buffer \<open>result\<close> read from the last kernel.\<close>

definition readback :: "(8 word list \<Rightarrow> 'v) \<Rightarrow> ('v::zero) world \<Rightarrow> kernel \<Rightarrow> error + 'v list" where
  "readback cast w lastKernel =
     (case texSize lastKernel of
        None \<Rightarrow> Inl TypeError
      | Some (t0, t1) \<Rightarrow>
          (case webGl lastKernel of
             None \<Rightarrow> Inl TypeError
           | Some gl \<Rightarrow>
               if floatOutput lastKernel
               then Inr (typed_array (t0 * t1 * 4) (float_pixels w gl t0 t1))
               else Inr (float32_view cast (typed_array (t0 * t1 * 4) (byte_pixels w gl t0 t1)))))"

text \<open>
  Reading an array beyond its length gives \<open>undefined\<close>, a product with \<open>undefined\<close> is
  \<open>NaN\<close> (here \<open>None\<close>), and \<open>subarray(0, NaN)\<close> is empty; \<open>subarray(0, n)\<close> stops at
  the end of the array.
\<close>

definition js_index :: "nat list \<Rightarrow> nat \<Rightarrow> nat option" where
  "js_index xs i = (if i < length xs then Some (xs ! i) else None)"

definition js_times :: "nat option \<Rightarrow> nat option \<Rightarrow> nat option" where
  "js_times a b = (case a of None \<Rightarrow> None | Some x \<Rightarrow> (case b of None \<Rightarrow> None | Some y \<Rightarrow> Some (x * y)))"

definition subarray0 :: "'v list \<Rightarrow> nat option \<Rightarrow> 'v list" where
  "subarray0 xs e = (case e of None \<Rightarrow> [] | Some n \<Rightarrow> take n xs)"

text \<open>Line 114.\<close>

definition truncate_result :: "nat list option \<Rightarrow> 'v list \<Rightarrow> error + 'v list" where
  "truncate_result td result =
     (case td of
        None \<Rightarrow> Inl TypeError
      | Some t \<Rightarrow>
          Inr (subarray0 result (js_times (js_times (js_index t 0) (js_index t 1)) (js_index t 2))))"

text \<open>
  Modelled from the spec: \<open>utils.splitArray\<close>, which is not in this file (``split
  contiguously in buffer order'' into sequences of the given length each). The spec asks
  for positive dimensions and says nothing of a chunk length 0, where this model gives
  no result.
\<close>

function chunks :: "nat \<Rightarrow> 'a list \<Rightarrow> 'a list list" where
  "chunks part xs =
     (if part = 0 \<or> xs = [] then [] else take part xs # chunks part (drop part xs))"
  by pat_completeness auto
termination
  by (relation "measure (\<lambda>(part, xs). length xs)") auto

definition splitArray :: "'a list \<Rightarrow> nat \<Rightarrow> 'a list list option" where
  "splitArray array part = (if part = 0 then None else Some (chunks part array))"

text \<open>
  What the closure returns: the flat buffer, the result of one split, the result of two,
  or \<open>undefined\<close> when \<open>dimensions\<close> has none of the lengths 1, 2 and 3.
\<close>

datatype 'v result =
    Flat "'v list"
  | Nested2 "'v list list"
  | Nested3 "'v list list list"
  | NoResult

text \<open>Lines 116 to 125.\<close>

fun reshape :: "nat list \<Rightarrow> 'v list \<Rightarrow> error + 'v result" where
  "reshape [d0] result = Inr (Flat result)"
| "reshape [d0, d1] result =
     (case splitArray result d0 of
        None \<Rightarrow> Inl SplitUnspecified
      | Some rows \<Rightarrow> Inr (Nested2 rows))"
| "reshape [d0, d1, d2] result =
     (case splitArray result (d0 * d1) of
        None \<Rightarrow> Inl SplitUnspecified
      | Some cube \<Rightarrow>
          (case those (map (\<lambda>x. splitArray x d0) cube) of
             None \<Rightarrow> Inl SplitUnspecified
           | Some c \<Rightarrow> Inr (Nested3 c)))"
| "reshape _ result = Inr NoResult"

text \<open>
  The closure of lines 99 to 126. \<open>apply\<close> is the call of the combinator, which runs the
  kernels: it throws or leaves a new state. The closure then reads the last kernel in
  that state.
\<close>

definition call_combined ::
  "('f \<Rightarrow> jsval list \<Rightarrow> 'v world \<Rightarrow> error + 'v world) \<Rightarrow> (8 word list \<Rightarrow> 'v) \<Rightarrow>
   kid option \<Rightarrow> 'f \<Rightarrow> jsval list \<Rightarrow> ('v::zero) world \<Rightarrow> error + 'v world \<times> 'v result" where
  "call_combined apply cast lastKernel combinedKernel args w =
     (case apply combinedKernel args w of
        Inl e \<Rightarrow> Inl e
      | Inr w' \<Rightarrow>
          (case lastKernel of
             None \<Rightarrow> Inl TypeError
           | Some l \<Rightarrow>
               (case readback cast w' (kernels w' l) of
                  Inl e \<Rightarrow> Inl e
                | Inr result \<Rightarrow>
                    (case truncate_result (threadDim (kernels w' l)) result of
                       Inl e \<Rightarrow> Inl e
                     | Inr result' \<Rightarrow>
                         (case reshape (dimensions (kernels w' l)) result' of
                            Inl e \<Rightarrow> Inl e
                          | Inr r \<Rightarrow> Inr (w', r))))))"

subsection \<open>execute and getCanvas\<close>

text \<open>
  \<open>Array.apply(null, arguments)\<close>: the array of the arguments, except that a single
  number is taken as a length.
\<close>

fun Array_apply :: "jsval list \<Rightarrow> error + jsval list" where
  "Array_apply [Num n] = (if 0 \<le> n \<and> n < 2 ^ 32 then Inr (replicate (nat n) Undefined) else Inl RangeError)"
| "Array_apply xs = Inr xs"

datatype promise = Fulfilled jsval | Rejected error

text \<open>
  Modelled from the spec: \<open>utils.newPromise\<close>, which is not in this file (``a future/result
  type returned immediately, with failure captured as a value inside that type''; the
  execution happens ``in the same logical thread of control that created the deferred
  handle''): the executor runs at once, and what it passes to \<open>accept\<close> or \<open>reject\<close> is
  the state of the promise.
\<close>

definition newPromise :: "((jsval \<Rightarrow> promise) \<Rightarrow> (error \<Rightarrow> promise) \<Rightarrow> promise) \<Rightarrow> promise" where
  "newPromise executor = executor Fulfilled Rejected"

text \<open>
  \<open>execute\<close>. \<open>call\<close> is the invocation of a kernel on an argument list in a state \<open>'w\<close>
  of the backend: it leaves a state and either throws or returns a value. \<open>Inl\<close> is an
  error thrown by \<open>execute\<close> itself.
\<close>

definition execute ::
  "(kid \<Rightarrow> jsval list \<Rightarrow> 'w \<Rightarrow> 'w \<times> (error + jsval)) \<Rightarrow> GPU \<Rightarrow> jsval list \<Rightarrow> 'w \<Rightarrow>
   error + 'w \<times> promise" where
  "execute call this arguments w =
     (case (if length arguments = 1 then Inr [arguments ! 0] else Array_apply arguments) of
        Inl e \<Rightarrow> Inl e
      | Inr args \<Rightarrow>
          (case kernelSynchronousExecutor this of
             None \<Rightarrow> Inr (w, newPromise (\<lambda>accept reject. reject TypeError))
           | Some k \<Rightarrow>
               (let (w', outcome) = call k args w
                in Inr (w', newPromise (\<lambda>accept reject.
                     case outcome of Inr v \<Rightarrow> accept v | Inl e \<Rightarrow> reject e)))))"

text \<open>\<open>getCanvas\<close>: \<open>this._kernelSynchronousExecutor.canvas\<close>, with no test of the executor.\<close>

definition getCanvas :: "GPU \<Rightarrow> heap \<Rightarrow> error + ref option" where
  "getCanvas this h =
     (case kernelSynchronousExecutor this of
        None \<Rightarrow> Inl TypeError
      | Some k \<Rightarrow> Inr (canvas (h k)))"

subsection \<open>The decoder in the words of the spec\<close>

text \<open>
  Modelled from the spec: the \<open>threadDim\<close> of a built kernel, which the kernel class
  (not in this file) derives from \<open>dimensions\<close>: the dimensions as a triple, ``unused
  trailing dimensions equal to 1'', whose product is ``the logical (unpadded) volume of
  computed elements''.
\<close>

definition triple :: "nat list \<Rightarrow> nat list" where
  "triple dims = dims @ replicate (3 - length dims) 1"

text \<open>
  \<open>dimensions[0] * dimensions[1] * dimensions[2]\<close> of the spec, read on the triple.
\<close>

definition volume :: "nat list \<Rightarrow> nat" where
  "volume dims = triple dims ! 0 * triple dims ! 1 * triple dims ! 2"

text \<open>
  For three dimensions the spec splits the buffer into chunks of length \<open>d0\<close> first and
  then groups the chunks, \<open>d1\<close> to a group.
\<close>

definition spec_decode3 :: "nat \<Rightarrow> nat \<Rightarrow> 'v list \<Rightarrow> 'v list list list" where
  "spec_decode3 d0 d1 buf = chunks d1 (chunks d0 buf)"

text \<open>
  The nested sequences expected of a buffer read through \<open>f\<close>: \<open>h\<close> rows of width
  \<open>w\<close>, and \<open>d\<close> slabs of \<open>h\<close> rows each, in buffer order.
\<close>

definition rows_of :: "nat \<Rightarrow> nat \<Rightarrow> (nat \<Rightarrow> 'a) \<Rightarrow> 'a list list" where
  "rows_of w h f = map (\<lambda>y. map (\<lambda>x. f (x + w * y)) [0..<w]) [0..<h]"

definition slabs_of :: "nat \<Rightarrow> nat \<Rightarrow> nat \<Rightarrow> (nat \<Rightarrow> 'a) \<Rightarrow> 'a list list list" where
  "slabs_of w h d f = map (\<lambda>z. rows_of w h (\<lambda>i. f (i + w * h * z))) [0..<d]"

subsection \<open>Sample objects\<close>

text \<open>Two kernels with different canvases and contexts, and a facade of each kind.\<close>

definition plain_kernel :: kernel where
  "plain_kernel = \<lparr>canvas = None, webGl = None, outputToTexture = False, floatOutput = False,
     texSize = None, threadDim = None, dimensions = [1]\<rparr>"

definition first_kernel :: kernel where
  "first_kernel = plain_kernel\<lparr>canvas := Some 10, webGl := Some 20\<rparr>"

definition second_kernel :: kernel where
  "second_kernel = plain_kernel\<lparr>canvas := Some 11, webGl := Some 21\<rparr>"

definition two_kernels :: heap where
  "two_kernels = (\<lambda>_. plain_kernel)(0 := first_kernel, 1 := second_kernel)"

definition webgl_gpu :: GPU where
  "webgl_gpu = \<lparr>gpu_canvas = None, gpu_webGl = None, kernelSynchronousExecutor = None,
     gpu_runner = Some (WebGLRunner \<lparr>rs_canvas = None, rs_webGl = None\<rparr> DefaultKernel)\<rparr>"

definition cpu_gpu :: GPU where
  "cpu_gpu = \<lparr>gpu_canvas = None, gpu_webGl = None, kernelSynchronousExecutor = None,
     gpu_runner = Some (CPURunner \<lparr>rs_canvas = None, rs_webGl = None\<rparr>)\<rparr>"

text \<open>
  A state in which the combinator builds the second kernel, with one dimension of 3
  threads on a texture of 2 by 2; the context delivers 16 bytes, and four bytes are read
  as a little-endian number.
\<close>

definition built_kernel :: kernel where
  "built_kernel = second_kernel\<lparr>canvas := Some 10, webGl := Some 20, outputToTexture := True,
     texSize := Some (2, 2), threadDim := Some [3, 1, 1], dimensions := [3]\<rparr>"

definition sample_bytes :: "ref \<Rightarrow> nat \<Rightarrow> nat \<Rightarrow> 8 word list" where
  "sample_bytes gl w h = [1, 0, 0, 0, 2, 0, 0, 0, 3, 0, 0, 0, 9, 9, 9, 9]"

definition sample_floats :: "ref \<Rightarrow> nat \<Rightarrow> nat \<Rightarrow> nat list" where
  "sample_floats gl w h = []"

definition sample_world :: "nat world" where
  "sample_world = \<lparr>kernels = two_kernels, float_pixels = sample_floats, byte_pixels = sample_bytes\<rparr>"

definition sample_cast :: "8 word list \<Rightarrow> nat" where
  "sample_cast bytes = foldr (\<lambda>b n. unat b + 256 * n) bytes 0"

definition sample_run :: "jsval \<Rightarrow> jsval list \<Rightarrow> nat world \<Rightarrow> error + nat world" where
  "sample_run f args w = Inr (w\<lparr>kernels := (kernels w)(1 := built_kernel)\<rparr>)"

text \<open>
  A state whose context delivers the floats \<open>0, 1, 2, ...\<close>, a kernel with float
  output built for given dimensions on a texture of 2 by 2 (16 floats), and a combinator
  that leaves such a kernel as kernel 1.
\<close>

definition shaped_kernel :: "nat list \<Rightarrow> kernel" where
  "shaped_kernel dims = second_kernel\<lparr>canvas := Some 10, webGl := Some 20, outputToTexture := True,
     floatOutput := True, texSize := Some (2, 2), threadDim := Some (triple dims), dimensions := dims\<rparr>"

definition counting_floats :: "ref \<Rightarrow> nat \<Rightarrow> nat \<Rightarrow> nat list" where
  "counting_floats gl w h = [0..<w * h * 4]"

definition counting_world :: "nat world" where
  "counting_world = \<lparr>kernels = two_kernels, float_pixels = counting_floats, byte_pixels = sample_bytes\<rparr>"

definition install_kernel :: "kernel \<Rightarrow> jsval \<Rightarrow> jsval list \<Rightarrow> nat world \<Rightarrow> error + nat world" where
  "install_kernel k f args w = Inr (w\<lparr>kernels := (kernels w)(1 := k)\<rparr>)"

text \<open>
  A kernel invocation that counts the calls, throws on an empty argument list and returns
  its first argument otherwise; a \<open>buildKernel\<close> that allocates kernel 5; settings
  that give only a mode.
\<close>

definition sample_call :: "kid \<Rightarrow> jsval list \<Rightarrow> nat \<Rightarrow> nat \<times> (error + jsval)" where
  "sample_call k args n =
     (Suc n, case args of [] \<Rightarrow> Inl (External (Str ''no input'')) | a # _ \<Rightarrow> Inr a)"

definition sample_build :: "runner \<Rightarrow> jsval \<Rightarrow> kernelSettings \<Rightarrow> heap \<Rightarrow> error + kid \<times> heap" where
  "sample_build r fn settings h = Inr (5, h(5 := first_kernel))"

definition mode_settings :: "string \<Rightarrow> settings" where
  "mode_settings m = \<lparr>s_canvas = None, s_webGl = None, s_mode = Some m\<rparr>"

section \<open>Properties\<close>

subsection \<open>Splitting into chunks\<close>

declare chunks.simps [simp del]

lemma chunks_Nil: "chunks part [] = []"
  by (simp add: chunks.simps)

lemma chunks_step: "0 < part \<Longrightarrow> xs \<noteq> [] \<Longrightarrow> chunks part xs = take part xs # chunks part (drop part xs)"
  by (subst chunks.simps) simp

lemma chunks_take: "0 < part \<Longrightarrow> chunks part (take (part * n) xs) = take n (chunks part xs)"
proof (induction n arbitrary: xs)
  case 0
  then show ?case by (simp add: chunks_Nil)
next
  case (Suc n)
  show ?case
  proof (cases "xs = []")
    case True
    then show ?thesis by (simp add: chunks_Nil)
  next
    case False
    with Suc.prems have ne: "take (part * Suc n) xs \<noteq> []" by simp
    have "chunks part (take (part * Suc n) xs)
            = take part (take (part * Suc n) xs) # chunks part (drop part (take (part * Suc n) xs))"
      using Suc.prems ne by (rule chunks_step)
    also have "take part (take (part * Suc n) xs) = take part xs"
      by (simp add: min_def)
    also have "drop part (take (part * Suc n) xs) = take (part * n) (drop part xs)"
      by (simp add: drop_take)
    also have "chunks part (take (part * n) (drop part xs)) = take n (chunks part (drop part xs))"
      using Suc.prems by (rule Suc.IH)
    finally show ?thesis
      using Suc.prems False by (simp add: chunks_step)
  qed
qed

lemma chunks_drop: "0 < part \<Longrightarrow> chunks part (drop (part * n) xs) = drop n (chunks part xs)"
proof (induction n arbitrary: xs)
  case 0
  then show ?case by simp
next
  case (Suc n)
  show ?case
  proof (cases "xs = []")
    case True
    then show ?thesis by (simp add: chunks_Nil)
  next
    case False
    have e: "part * Suc n = part * n + part" by simp
    have "chunks part (drop (part * Suc n) xs) = chunks part (drop (part * n) (drop part xs))"
      by (simp only: e drop_drop)
    also have "\<dots> = drop n (chunks part (drop part xs))"
      using Suc.prems by (rule Suc.IH)
    finally have "chunks part (drop (part * Suc n) xs) = drop n (chunks part (drop part xs))" .
    then show ?thesis
      using Suc.prems False by (simp add: chunks_step)
  qed
qed

lemma chunks_regroup:
  "0 < d0 \<Longrightarrow> 0 < d1 \<Longrightarrow> map (chunks d0) (chunks (d0 * d1) xs) = chunks d1 (chunks d0 xs)"
proof (induction "d0 * d1" xs rule: chunks.induct)
  case (1 xs)
  show ?case
  proof (cases "xs = []")
    case True
    then show ?thesis by (simp add: chunks_Nil)
  next
    case False
    from 1 have pos: "0 < d0 * d1" by simp
    have ne: "chunks d0 xs \<noteq> []"
      using False "1.prems" by (simp add: chunks_step)
    have ih: "map (chunks d0) (chunks (d0 * d1) (drop (d0 * d1) xs)) = chunks d1 (chunks d0 (drop (d0 * d1) xs))"
      using "1.hyps" False pos "1.prems" by simp
    have "chunks d1 (chunks d0 xs) = take d1 (chunks d0 xs) # chunks d1 (drop d1 (chunks d0 xs))"
      using "1.prems"(2) ne by (rule chunks_step)
    also have "\<dots> = chunks d0 (take (d0 * d1) xs) # chunks d1 (chunks d0 (drop (d0 * d1) xs))"
      using "1.prems" by (simp add: chunks_take chunks_drop)
    also have "\<dots> = map (chunks d0) (chunks (d0 * d1) xs)"
      using ih pos False by (simp add: chunks_step [of "d0 * d1" xs])
    finally show ?thesis by simp
  qed
qed

lemma chunks_eq_map:
  "0 < part \<Longrightarrow> length xs = part * n \<Longrightarrow>
   chunks part xs = map (\<lambda>y. take part (drop (part * y) xs)) [0..<n]"
proof (induction n arbitrary: xs)
  case 0
  then show ?case by (simp add: chunks_Nil)
next
  case (Suc n)
  then have ne: "xs \<noteq> []" by auto
  have len: "length (drop part xs) = part * n" using Suc.prems by simp
  have "chunks part (drop part xs) = map (\<lambda>y. take part (drop (part * y) (drop part xs))) [0..<n]"
    using Suc.prems(1) len by (rule Suc.IH)
  also have "\<dots> = map (\<lambda>y. take part (drop (part * Suc y) xs)) [0..<n]"
    by (simp add: add.commute)
  finally have tl: "chunks part (drop part xs) = map ((\<lambda>y. take part (drop (part * y) xs)) \<circ> Suc) [0..<n]"
    by (simp add: comp_def)
  have "[0..<Suc n] = 0 # map Suc [0..<n]"
    by (simp add: upt_conv_Cons map_Suc_upt del: upt_Suc)
  then have "map (\<lambda>y. take part (drop (part * y) xs)) [0..<Suc n]
               = take part xs # map ((\<lambda>y. take part (drop (part * y) xs)) \<circ> Suc) [0..<n]"
    by (simp del: upt_Suc)
  then show ?case
    using tl Suc.prems(1) ne by (simp add: chunks_step del: upt_Suc)
qed

lemma those_map_Some: "those (map (\<lambda>x. Some (f x)) xs) = Some (map f xs)"
  by (induction xs) simp_all

lemma take_drop_nth:
  "m + n \<le> length xs \<Longrightarrow> take n (drop m xs) = map (\<lambda>x. xs ! (x + m)) [0..<n]"
  by (rule nth_equalityI) (simp_all add: add.commute)

lemma chunks_rows:
  assumes "0 < w" and "length xs = w * h"
  shows "chunks w xs = rows_of w h ((!) xs)"
proof -
  have "take w (drop (w * y) xs) = map (\<lambda>x. xs ! (x + w * y)) [0..<w]" if "y < h" for y
  proof -
    from that have "Suc y \<le> h" by simp
    then have "w * Suc y \<le> w * h" by (rule mult_le_mono2)
    then have "w * y + w \<le> length xs" using assms(2) by simp
    then show ?thesis by (rule take_drop_nth)
  qed
  then have "map (\<lambda>y. take w (drop (w * y) xs)) [0..<h] = rows_of w h ((!) xs)"
    by (simp add: rows_of_def)
  then show ?thesis
    using chunks_eq_map [OF assms] by simp
qed

lemma rows_of_cong:
  "(\<And>i. i < w * h \<Longrightarrow> f i = g i) \<Longrightarrow> rows_of w h f = rows_of w h g"
proof -
  assume eq: "\<And>i. i < w * h \<Longrightarrow> f i = g i"
  have "x + w * y < w * h" if "x < w" and "y < h" for x y
  proof -
    from that(2) have "Suc y \<le> h" by simp
    then have "w * Suc y \<le> w * h" by (rule mult_le_mono2)
    then show ?thesis using that(1) by simp
  qed
  then show ?thesis
    by (simp add: rows_of_def eq)
qed

lemma chunks_slabs:
  assumes "0 < w" and "0 < h" and "length xs = w * h * d"
  shows "chunks h (chunks w xs) = slabs_of w h d ((!) xs)"
proof -
  have pos: "0 < w * h" using assms by simp
  have slab: "chunks w (take (w * h) (drop (w * h * z) xs)) = rows_of w h (\<lambda>i. xs ! (i + w * h * z))"
    if "z < d" for z
  proof -
    from that have "Suc z \<le> d" by simp
    then have "w * h * Suc z \<le> w * h * d" by (rule mult_le_mono2)
    then have le: "w * h * z + w * h \<le> length xs" using assms(3) by simp
    then have len: "length (take (w * h) (drop (w * h * z) xs)) = w * h" by simp
    have "chunks w (take (w * h) (drop (w * h * z) xs))
            = rows_of w h ((!) (take (w * h) (drop (w * h * z) xs)))"
      using assms(1) len by (rule chunks_rows)
    also have "\<dots> = rows_of w h (\<lambda>i. xs ! (i + w * h * z))"
      using le by (intro rows_of_cong) (simp add: add.commute)
    finally show ?thesis .
  qed
  have "chunks h (chunks w xs) = map (chunks w) (chunks (w * h) xs)"
    using assms(1,2) by (simp add: chunks_regroup)
  also have "chunks (w * h) xs = map (\<lambda>z. take (w * h) (drop (w * h * z) xs)) [0..<d]"
    using pos assms(3) by (rule chunks_eq_map)
  finally show ?thesis
    by (simp add: slabs_of_def slab comp_def)
qed

lemma reshape2: "0 < d0 \<Longrightarrow> reshape [d0, d1] buf = Inr (Nested2 (chunks d0 buf))"
  by (simp add: splitArray_def)

lemma reshape3:
  "0 < d0 \<Longrightarrow> 0 < d1 \<Longrightarrow> reshape [d0, d1, d2] buf = Inr (Nested3 (spec_decode3 d0 d1 buf))"
  by (simp add: splitArray_def those_map_Some spec_decode3_def chunks_regroup)

lemma slabs_of_cong:
  assumes eq: "\<And>i. i < w * h * d \<Longrightarrow> f i = g i"
  shows "slabs_of w h d f = slabs_of w h d g"
proof -
  have "rows_of w h (\<lambda>i. f (i + w * h * z)) = rows_of w h (\<lambda>i. g (i + w * h * z))"
    if "z < d" for z
  proof (rule rows_of_cong)
    fix i assume "i < w * h"
    moreover from that have "Suc z \<le> d" by simp
    then have "w * h * Suc z \<le> w * h * d" by (rule mult_le_mono2)
    ultimately have "i + w * h * z < w * h * d" by simp
    then show "f (i + w * h * z) = g (i + w * h * z)" by (rule eq)
  qed
  then show ?thesis by (simp add: slabs_of_def)
qed

subsection \<open>Combining kernels\<close>

lemma configure_all_apply:
  "configure_all cv gl ks h k =
     (if k \<in> set ks then (h k)\<lparr>canvas := cv, webGl := gl, outputToTexture := True\<rparr> else h k)"
  by (induction ks arbitrary: h) (simp_all add: setCanvas_def setWebGl_def setOutputToTexture_def)

lemma combineKernels_noncpu:
  assumes "combineKernels this h ks f = Inr (h', c)" and "mode this \<noteq> Inr ''cpu''"
  shows "h' = configure_all (canvas (h (hd ks))) (webGl (h (hd ks))) ks h \<or> ks = []"
    and "ks = [] \<Longrightarrow> h' = h"
    and "c = CombinedClosure (if ks = [] then None else Some (last ks)) f"
  using assms
  by (auto simp: combineKernels_def split: sum.splits if_splits list.splits)

text \<open>
  Claim C3, as amended. The claim says that the last kernel is left out of the
  configuration. The loop runs over every argument but the combinator, so the last
  kernel is configured like the others: outside the CPU mode, after \<open>combineKernels\<close>
  every kernel of the list, the last one included, has \<open>outputToTexture\<close> set and has
  the same canvas and the same context as the first kernel of the list; kernels that
  are not in the list are left as they were. No kernel of the pipeline delivers its
  output to the host by itself; the closure returned reads the last one back.
\<close>

theorem combineKernels_configures_every_kernel:
  assumes "combineKernels this h ks f = Inr (h', c)" and "mode this \<noteq> Inr ''cpu''"
  shows "(\<forall>k \<in> set ks. outputToTexture (h' k) \<and> canvas (h' k) = canvas (h' (hd ks)) \<and>
             webGl (h' k) = webGl (h' (hd ks))) \<and>
         (ks \<noteq> [] \<longrightarrow> outputToTexture (h' (last ks))) \<and>
         (\<forall>k. k \<notin> set ks \<longrightarrow> h' k = h k)"
proof (cases "ks = []")
  case True
  with combineKernels_noncpu(2) [OF assms] show ?thesis by simp
next
  case False
  with combineKernels_noncpu(1) [OF assms]
  have "h' = configure_all (canvas (h (hd ks))) (webGl (h (hd ks))) ks h" by simp
  then show ?thesis using False by (simp add: configure_all_apply)
qed

theorem combineKernels_configures_every_kernel_witness:
  "mode webgl_gpu \<noteq> Inr ''cpu'' \<and>
   combineKernels webgl_gpu two_kernels [0, 1] (Fun 7) =
     Inr (two_kernels
            (0 := first_kernel\<lparr>outputToTexture := True\<rparr>,
             1 := second_kernel\<lparr>canvas := Some 10, webGl := Some 20, outputToTexture := True\<rparr>),
          CombinedClosure (Some 1) (Fun 7)) \<and>
   outputToTexture (second_kernel\<lparr>canvas := Some 10, webGl := Some 20, outputToTexture := True\<rparr>)"
proof -
  have m: "mode webgl_gpu \<noteq> Inr ''cpu''"
    by (simp add: mode_def webgl_gpu_def)
  have c: "combineKernels webgl_gpu two_kernels [0, 1] (Fun 7) =
     Inr (two_kernels
            (0 := first_kernel\<lparr>outputToTexture := True\<rparr>,
             1 := second_kernel\<lparr>canvas := Some 10, webGl := Some 20, outputToTexture := True\<rparr>),
          CombinedClosure (Some 1) (Fun 7))"
    by (simp add: Let_def combineKernels_def mode_def webgl_gpu_def two_kernels_def first_kernel_def
        second_kernel_def plain_kernel_def setCanvas_def setWebGl_def setOutputToTexture_def)
  show ?thesis
    using m c combineKernels_configures_every_kernel [OF c m] by simp
qed

text \<open>
  Claim C3 as stated fails: with two kernels whose \<open>outputToTexture\<close> is unset,
  \<open>combineKernels\<close> outside the CPU mode sets the flag of the last kernel too.
\<close>

theorem last_kernel_forced_counterexample:
  "mode webgl_gpu \<noteq> Inr ''cpu'' \<and>
   combineKernels webgl_gpu two_kernels [0, 1] (Fun 7) =
     Inr (two_kernels
            (0 := first_kernel\<lparr>outputToTexture := True\<rparr>,
             1 := second_kernel\<lparr>canvas := Some 10, webGl := Some 20, outputToTexture := True\<rparr>),
          CombinedClosure (Some 1) (Fun 7)) \<and>
   \<not> outputToTexture (two_kernels 1) \<and>
   outputToTexture
     ((two_kernels
        (0 := first_kernel\<lparr>outputToTexture := True\<rparr>,
         1 := second_kernel\<lparr>canvas := Some 10, webGl := Some 20, outputToTexture := True\<rparr>)) 1)"
  by (simp add: Let_def combineKernels_def mode_def webgl_gpu_def two_kernels_def first_kernel_def
      second_kernel_def plain_kernel_def setCanvas_def setWebGl_def setOutputToTexture_def)



text \<open>
  Claim C4. When the mode of the facade is \<open>cpu\<close>, \<open>combineKernels\<close> returns the
  combinator it was given, and the kernels are left exactly as they were.
\<close>

theorem combineKernels_cpu_identity:
  "mode this = Inr ''cpu'' \<Longrightarrow> combineKernels this h ks f = Inr (h, Given f)"
  by (simp add: combineKernels_def)

theorem combineKernels_cpu_identity_witness:
  "mode cpu_gpu = Inr ''cpu'' \<and>
   combineKernels cpu_gpu two_kernels [0, 1] (Fun 7) = Inr (two_kernels, Given (Fun 7))"
proof -
  have m: "mode cpu_gpu = Inr ''cpu''"
    by (simp add: mode_def cpu_gpu_def)
  show ?thesis
    using m combineKernels_cpu_identity [OF m, of two_kernels "[0, 1]" "Fun 7"] by simp
qed

subsection \<open>Reading back and truncating\<close>

lemma length_typed_array: "length (typed_array n data) = n"
  by (simp add: typed_array_def)

lemma length_float32_view: "length (float32_view cast bytes) = length bytes div 4"
  by (induction cast bytes rule: float32_view.induct) simp_all

lemma readback_length:
  assumes "texSize k = Some (t0, t1)" and "webGl k = Some gl"
  shows "\<exists>buf. readback cast w k = Inr buf \<and> length buf = (if floatOutput k then t0 * t1 * 4 else t0 * t1)"
  using assms by (simp add: readback_def length_typed_array length_float32_view)

lemma truncate_triple:
  "truncate_result (Some (triple dims)) buf = Inr (take (volume dims) buf)"
proof -
  have "0 < length (triple dims)" and "1 < length (triple dims)" and "2 < length (triple dims)"
    by (simp_all add: triple_def)
  then have "js_index (triple dims) 0 = Some (triple dims ! 0)"
    and "js_index (triple dims) 1 = Some (triple dims ! 1)"
    and "js_index (triple dims) 2 = Some (triple dims ! 2)"
    by (simp_all only: js_index_def if_True)
  then show ?thesis
    by (simp add: truncate_result_def js_times_def subarray0_def volume_def)
qed

text \<open>
  Claim C2. Take the callable returned by \<open>combineKernels\<close> outside the CPU mode for a
  list of kernels that is not empty, and call it. When the combinator has returned, the
  buffer read back from the last kernel has \<open>texSize[0] * texSize[1] * 4\<close> elements for
  float output and \<open>texSize[0] * texSize[1]\<close> for byte output. The code cuts it to its
  first \<open>threadDim[0] * threadDim[1] * threadDim[2]\<close> elements; with \<open>threadDim\<close> the
  triple of \<open>dimensions\<close> and a texture that holds at least that many elements, the cut
  buffer has exactly \<open>dimensions[0] * dimensions[1] * dimensions[2]\<close> elements, the rest
  (the padding) is dropped, and the result of the call is the reshaping of the cut buffer.
\<close>

theorem combined_call_truncates:
  assumes comb: "combineKernels this h ks f = Inr (h', c)"
    and noncpu: "mode this \<noteq> Inr ''cpu''"
    and ks: "ks \<noteq> []"
    and run: "app f args w = Inr w'"
    and k: "k = kernels w' (last ks)"
    and tex: "texSize k = Some (t0, t1)"
    and gl: "webGl k = Some gl"
    and td: "threadDim k = Some (triple (dimensions k))"
    and big: "volume (dimensions k) \<le> (if floatOutput k then t0 * t1 * 4 else t0 * t1)"
  shows "\<exists>buf. c = CombinedClosure (Some (last ks)) f \<and>
           readback cast w' k = Inr buf \<and>
           truncate_result (threadDim k) buf = Inr (take (volume (dimensions k)) buf) \<and>
           length (take (volume (dimensions k)) buf) = volume (dimensions k) \<and>
           call_combined app cast (Some (last ks)) f args w =
             (case reshape (dimensions k) (take (volume (dimensions k)) buf) of
                Inl e \<Rightarrow> Inl e
              | Inr r \<Rightarrow> Inr (w', r))"
proof -
  from readback_length [OF tex gl]
  obtain buf where rb: "readback cast w' k = Inr buf"
    and len: "length buf = (if floatOutput k then t0 * t1 * 4 else t0 * t1)"
    by blast
  have c: "c = CombinedClosure (Some (last ks)) f"
    using combineKernels_noncpu(3) [OF comb noncpu] ks by simp
  have tr: "truncate_result (threadDim k) buf = Inr (take (volume (dimensions k)) buf)"
    by (simp only: td truncate_triple)
  have l: "length (take (volume (dimensions k)) buf) = volume (dimensions k)"
    using big len by simp
  have "call_combined app cast (Some (last ks)) f args w =
             (case reshape (dimensions k) (take (volume (dimensions k)) buf) of
                Inl e \<Rightarrow> Inl e
              | Inr r \<Rightarrow> Inr (w', r))"
    using run rb tr by (simp add: call_combined_def k)
  with c rb tr l show ?thesis by blast
qed

theorem combined_call_truncates_witness:
  "combineKernels webgl_gpu two_kernels [0, 1] (Fun 7) =
     Inr (configure_all (Some 10) (Some 20) [0, 1] two_kernels, CombinedClosure (Some 1) (Fun 7)) \<and>
   mode webgl_gpu \<noteq> Inr ''cpu'' \<and>
   sample_run (Fun 7) [] sample_world = Inr (sample_world\<lparr>kernels := two_kernels(1 := built_kernel)\<rparr>) \<and>
   texSize built_kernel = Some (2, 2) \<and>
   webGl built_kernel = Some 20 \<and>
   threadDim built_kernel = Some (triple (dimensions built_kernel)) \<and>
   volume (dimensions built_kernel) = 3 \<and>
   readback sample_cast (sample_world\<lparr>kernels := two_kernels(1 := built_kernel)\<rparr>) built_kernel
     = Inr [1, 2, 3, 151587081] \<and>
   call_combined sample_run sample_cast (Some 1) (Fun 7) [] sample_world =
     Inr (sample_world\<lparr>kernels := two_kernels(1 := built_kernel)\<rparr>, Flat [1, 2, 3])"
proof -
  have comb: "combineKernels webgl_gpu two_kernels [0, 1] (Fun 7) =
     Inr (configure_all (Some 10) (Some 20) [0, 1] two_kernels, CombinedClosure (Some 1) (Fun 7))"
    by (simp add: Let_def combineKernels_def mode_def webgl_gpu_def two_kernels_def first_kernel_def
        plain_kernel_def)
  have m: "mode webgl_gpu \<noteq> Inr ''cpu''"
    by (simp add: mode_def webgl_gpu_def)
  have ks: "[0, 1::nat] \<noteq> []" by simp
  have run: "sample_run (Fun 7) [] sample_world = Inr (sample_world\<lparr>kernels := two_kernels(1 := built_kernel)\<rparr>)"
    by (simp add: sample_run_def sample_world_def)
  have k: "built_kernel = kernels (sample_world\<lparr>kernels := two_kernels(1 := built_kernel)\<rparr>) (last [0, 1])"
    by simp
  have tex: "texSize built_kernel = Some (2, 2)"
    by (simp add: built_kernel_def)
  have gl: "webGl built_kernel = Some 20"
    by (simp add: built_kernel_def)
  have td: "threadDim built_kernel = Some (triple (dimensions built_kernel))"
    by (simp add: built_kernel_def triple_def numeral_eq_Suc)
  have v: "volume (dimensions built_kernel) = 3"
    by (simp add: built_kernel_def volume_def triple_def numeral_eq_Suc)
  have big: "volume (dimensions built_kernel) \<le> (if floatOutput built_kernel then 2 * 2 * 4 else 2 * 2)"
    by (simp add: v)
  have rb: "readback sample_cast (sample_world\<lparr>kernels := two_kernels(1 := built_kernel)\<rparr>) built_kernel
     = Inr [1, 2, 3, 151587081]"
    by (simp add: readback_def built_kernel_def second_kernel_def plain_kernel_def sample_world_def
        sample_bytes_def typed_array_def sample_cast_def)
  show ?thesis
    using comb m run tex gl td v rb
      combined_call_truncates [where app = sample_run and cast = sample_cast, OF comb m ks run k tex gl td big]
    by (simp add: built_kernel_def)
qed

subsection \<open>The decoded result\<close>

lemma volume_simps:
  "volume [d0] = d0" "volume [d0, d1] = d0 * d1" "volume [d0, d1, d2] = d0 * d1 * d2"
  by (simp_all add: volume_def triple_def numeral_eq_Suc)

lemma call_combined_reshape:
  assumes run: "app f args w = Inr w'"
    and k: "k = kernels w' l"
    and td: "threadDim k = Some (triple (dimensions k))"
    and rb: "readback cast w' k = Inr buf"
  shows "call_combined app cast (Some l) f args w =
           (case reshape (dimensions k) (take (volume (dimensions k)) buf) of
              Inl e \<Rightarrow> Inl e
            | Inr r \<Rightarrow> Inr (w', r))"
proof -
  have "truncate_result (threadDim k) buf = Inr (take (volume (dimensions k)) buf)"
    by (simp only: td truncate_triple)
  then show ?thesis
    using run rb by (simp add: call_combined_def k)
qed

lemma rows_of_take:
  "w * h \<le> n \<Longrightarrow> rows_of w h ((!) (take n xs)) = rows_of w h ((!) xs)"
  by (rule rows_of_cong) simp

lemma slabs_of_take:
  "w * h * d \<le> n \<Longrightarrow> slabs_of w h d ((!) (take n xs)) = slabs_of w h d ((!) xs)"
  by (rule slabs_of_cong) simp

text \<open>
  Claim C1. Take the callable returned by \<open>combineKernels\<close> outside the CPU mode for a
  list of kernels that is not empty, call it, and let \<open>buf\<close> be the flat buffer read
  back from the last kernel once the combinator has returned (with \<open>threadDim\<close> the
  triple of \<open>dimensions\<close> and a texture that holds the volume, as for claim C2). What
  the call returns follows the length of the last kernel's \<open>dimensions\<close>. With one
  dimension \<open>[wd]\<close> it is the flat sequence of the first \<open>wd\<close> elements itself. With
  two, \<open>[wd, ht]\<close>, it is \<open>ht\<close> rows of length \<open>wd\<close>, cut contiguously in buffer
  order: element \<open>x\<close> of row \<open>y\<close> is element \<open>x + wd * y\<close> of the buffer. With three,
  \<open>[wd, ht, dp]\<close>, the code cuts the buffer into slabs of \<open>wd * ht\<close> elements and each
  slab into rows of length \<open>wd\<close>; the call returns the same nested sequence as the one
  the spec describes (chunks of length \<open>wd\<close>, grouped \<open>ht\<close> to a group), which
  consists of \<open>dp\<close> groups of \<open>ht\<close> rows of length \<open>wd\<close>, element \<open>x\<close> of row \<open>y\<close>
  of group \<open>z\<close> being element \<open>x + wd * y + wd * ht * z\<close> of the buffer. In particular,
  when the buffer starts with \<open>0, ..., wd * ht * dp - 1\<close> the call returns exactly these
  indices nested. The dimensions that serve as a chunk length have to be positive.
\<close>

theorem combined_call_decodes:
  assumes comb: "combineKernels this h ks f = Inr (h', c)"
    and noncpu: "mode this \<noteq> Inr ''cpu''"
    and ks: "ks \<noteq> []"
    and run: "app f args w = Inr w'"
    and k: "k = kernels w' (last ks)"
    and tex: "texSize k = Some (t0, t1)"
    and gl: "webGl k = Some gl"
    and td: "threadDim k = Some (triple (dimensions k))"
    and big: "volume (dimensions k) \<le> (if floatOutput k then t0 * t1 * 4 else t0 * t1)"
    and rb: "readback cast w' k = Inr buf"
  shows "c = CombinedClosure (Some (last ks)) f \<and>
         (dimensions k = [wd] \<longrightarrow>
            call_combined app cast (Some (last ks)) f args w = Inr (w', Flat (take wd buf))) \<and>
         (dimensions k = [wd, ht] \<and> 0 < wd \<longrightarrow>
            call_combined app cast (Some (last ks)) f args w
              = Inr (w', Nested2 (rows_of wd ht ((!) buf)))) \<and>
         (dimensions k = [wd, ht, dp] \<and> 0 < wd \<and> 0 < ht \<longrightarrow>
            call_combined app cast (Some (last ks)) f args w
              = Inr (w', Nested3 (spec_decode3 wd ht (take (wd * ht * dp) buf))) \<and>
            spec_decode3 wd ht (take (wd * ht * dp) buf) = slabs_of wd ht dp ((!) buf)) \<and>
         (dimensions k = [wd, ht, dp] \<and> 0 < wd \<and> 0 < ht \<and>
          take (wd * ht * dp) buf = [0..<wd * ht * dp] \<longrightarrow>
            call_combined app cast (Some (last ks)) f args w
              = Inr (w', Nested3 (slabs_of wd ht dp (\<lambda>i. i))))"
proof -
  from readback_length [OF tex gl, of cast w'] rb
  have len: "length buf = (if floatOutput k then t0 * t1 * 4 else t0 * t1)" by simp
  with big have vol: "volume (dimensions k) \<le> length buf" by simp
  have call: "call_combined app cast (Some (last ks)) f args w =
           (case reshape (dimensions k) (take (volume (dimensions k)) buf) of
              Inl e \<Rightarrow> Inl e
            | Inr r \<Rightarrow> Inr (w', r))"
    using run k td rb by (rule call_combined_reshape)
  have c: "c = CombinedClosure (Some (last ks)) f"
    using combineKernels_noncpu(3) [OF comb noncpu] ks by simp
  have one: "call_combined app cast (Some (last ks)) f args w = Inr (w', Flat (take wd buf))"
    if "dimensions k = [wd]"
    using call that by (simp add: volume_simps)
  have two: "call_combined app cast (Some (last ks)) f args w
               = Inr (w', Nested2 (rows_of wd ht ((!) buf)))"
    if "dimensions k = [wd, ht] \<and> 0 < wd"
  proof -
    from that have d: "dimensions k = [wd, ht]" and p: "0 < wd" by simp_all
    from vol d have l: "length (take (wd * ht) buf) = wd * ht" by (simp add: volume_simps)
    have "reshape [wd, ht] (take (wd * ht) buf) = Inr (Nested2 (rows_of wd ht ((!) (take (wd * ht) buf))))"
      by (simp only: reshape2 [OF p] chunks_rows [OF p l])
    also have "rows_of wd ht ((!) (take (wd * ht) buf)) = rows_of wd ht ((!) buf)"
      by (rule rows_of_take) simp
    finally show ?thesis
      using call d by (simp add: volume_simps del: reshape.simps)
  qed
  have slabs: "spec_decode3 wd ht (take (wd * ht * dp) buf) = slabs_of wd ht dp ((!) buf)"
    if "dimensions k = [wd, ht, dp] \<and> 0 < wd \<and> 0 < ht"
  proof -
    from that have d: "dimensions k = [wd, ht, dp]" and p0: "0 < wd" and p1: "0 < ht" by simp_all
    from vol d have l: "length (take (wd * ht * dp) buf) = wd * ht * dp" by (simp add: volume_simps)
    have "spec_decode3 wd ht (take (wd * ht * dp) buf)
            = slabs_of wd ht dp ((!) (take (wd * ht * dp) buf))"
      unfolding spec_decode3_def using p0 p1 l by (rule chunks_slabs)
    also have "\<dots> = slabs_of wd ht dp ((!) buf)"
      by (rule slabs_of_take) simp
    finally show ?thesis .
  qed
  have three: "call_combined app cast (Some (last ks)) f args w
              = Inr (w', Nested3 (spec_decode3 wd ht (take (wd * ht * dp) buf)))"
    if "dimensions k = [wd, ht, dp] \<and> 0 < wd \<and> 0 < ht"
  proof -
    from that have d: "dimensions k = [wd, ht, dp]" and p0: "0 < wd" and p1: "0 < ht" by simp_all
    show ?thesis
      using call d reshape3 [OF p0 p1, of dp "take (wd * ht * dp) buf"]
      by (simp add: volume_simps del: reshape.simps)
  qed
  have synth: "call_combined app cast (Some (last ks)) f args w
              = Inr (w', Nested3 (slabs_of wd ht dp (\<lambda>i. i)))"
    if "dimensions k = [wd, ht, dp] \<and> 0 < wd \<and> 0 < ht \<and>
          take (wd * ht * dp) buf = [0..<wd * ht * dp]"
  proof -
    from that have a: "dimensions k = [wd, ht, dp] \<and> 0 < wd \<and> 0 < ht"
      and t: "take (wd * ht * dp) buf = [0..<wd * ht * dp]" by simp_all
    from a have p0: "0 < wd" and p1: "0 < ht" by simp_all
    have "spec_decode3 wd ht [0..<wd * ht * dp] = slabs_of wd ht dp ((!) [0..<wd * ht * dp])"
      unfolding spec_decode3_def using p0 p1 by (intro chunks_slabs) simp_all
    also have "\<dots> = slabs_of wd ht dp (\<lambda>i. i)"
      by (rule slabs_of_cong) simp
    finally show ?thesis
      using three [OF a] t by simp
  qed
  from c one two three slabs synth show ?thesis by blast
qed

theorem combined_call_decodes_witness:
  "call_combined (install_kernel (shaped_kernel [5])) sample_cast (Some 1) (Fun 7) [] counting_world
     = Inr (counting_world\<lparr>kernels := two_kernels(1 := shaped_kernel [5])\<rparr>, Flat [0, 1, 2, 3, 4]) \<and>
   call_combined (install_kernel (shaped_kernel [2, 3])) sample_cast (Some 1) (Fun 7) [] counting_world
     = Inr (counting_world\<lparr>kernels := two_kernels(1 := shaped_kernel [2, 3])\<rparr>,
            Nested2 [[0, 1], [2, 3], [4, 5]]) \<and>
   call_combined (install_kernel (shaped_kernel [2, 2, 2])) sample_cast (Some 1) (Fun 7) [] counting_world
     = Inr (counting_world\<lparr>kernels := two_kernels(1 := shaped_kernel [2, 2, 2])\<rparr>,
            Nested3 [[[0, 1], [2, 3]], [[4, 5], [6, 7]]]) \<and>
   spec_decode3 2 2 (take (2 * 2 * 2) [0..<16]) = [[[0, 1], [2, 3]], [[4, 5], [6, 7]]]"
proof -
  have comb: "combineKernels webgl_gpu two_kernels [0, 1] (Fun 7) =
     Inr (configure_all (Some 10) (Some 20) [0, 1] two_kernels, CombinedClosure (Some 1) (Fun 7))"
    by (simp add: Let_def combineKernels_def mode_def webgl_gpu_def two_kernels_def first_kernel_def
        plain_kernel_def)
  have m: "mode webgl_gpu \<noteq> Inr ''cpu''"
    by (simp add: mode_def webgl_gpu_def)
  have ks: "[0, 1::nat] \<noteq> []" by simp
  have run: "install_kernel (shaped_kernel dims) (Fun 7) [] counting_world
               = Inr (counting_world\<lparr>kernels := two_kernels(1 := shaped_kernel dims)\<rparr>)" for dims
    by (simp add: install_kernel_def counting_world_def)
  have k: "shaped_kernel dims
             = kernels (counting_world\<lparr>kernels := two_kernels(1 := shaped_kernel dims)\<rparr>) (last [0, 1])"
    for dims
    by simp
  have tex: "texSize (shaped_kernel dims) = Some (2, 2)" for dims
    by (simp add: shaped_kernel_def)
  have gl: "webGl (shaped_kernel dims) = Some 20" for dims
    by (simp add: shaped_kernel_def)
  have td: "threadDim (shaped_kernel dims) = Some (triple (dimensions (shaped_kernel dims)))" for dims
    by (simp add: shaped_kernel_def)
  have d: "dimensions (shaped_kernel dims) = dims" for dims
    by (simp add: shaped_kernel_def)
  have fo: "floatOutput (shaped_kernel dims)" for dims
    by (simp add: shaped_kernel_def)
  have big1: "volume (dimensions (shaped_kernel [5]))
                \<le> (if floatOutput (shaped_kernel [5]) then 2 * 2 * 4 else 2 * 2)"
    by (simp add: d fo volume_simps)
  have big2: "volume (dimensions (shaped_kernel [2, 3]))
                \<le> (if floatOutput (shaped_kernel [2, 3]) then 2 * 2 * 4 else 2 * 2)"
    by (simp add: d fo volume_simps)
  have big3: "volume (dimensions (shaped_kernel [2, 2, 2]))
                \<le> (if floatOutput (shaped_kernel [2, 2, 2]) then 2 * 2 * 4 else 2 * 2)"
    by (simp add: d fo volume_simps)
  have rb: "readback sample_cast (counting_world\<lparr>kernels := two_kernels(1 := shaped_kernel dims)\<rparr>)
              (shaped_kernel dims) = Inr [0..<16]" for dims
    by (simp add: readback_def shaped_kernel_def counting_world_def counting_floats_def typed_array_def)
  have syn: "take (2 * 2 * 2) [0..<16] = [0..<2 * 2 * 2]"
    by simp
  show ?thesis
    using combined_call_decodes [where app = "install_kernel (shaped_kernel [5])" and cast = sample_cast
        and wd = 5, OF comb m ks run k tex gl td big1 rb]
      combined_call_decodes [where app = "install_kernel (shaped_kernel [2, 3])" and cast = sample_cast
        and wd = 2 and ht = 3, OF comb m ks run k tex gl td big2 rb]
      combined_call_decodes [where app = "install_kernel (shaped_kernel [2, 2, 2])" and cast = sample_cast
        and wd = 2 and ht = 2 and dp = 2, OF comb m ks run k tex gl td big3 rb]
      syn
    by (simp add: d rows_of_def slabs_of_def upt_rec numeral_eq_Suc)
qed

subsection \<open>Construction, kernel creation and execution\<close>

lemma toLowerCase_cpu: "toLowerCase ''cpu'' = ''cpu''"
  by code_simp

lemma toLowerCase_webgl: "toLowerCase ''webgl'' = ''webgl''"
  by code_simp

lemma forwarded_arguments:
  "(if length arguments = 1 then Inr [arguments ! 0] else Array_apply arguments) = Inr arguments"
proof (cases arguments)
  case Nil
  then show ?thesis by simp
next
  case (Cons a as)
  show ?thesis
  proof (cases as)
    case Nil
    with Cons show ?thesis by simp
  next
    case (Cons b bs)
    with \<open>arguments = a # as\<close> show ?thesis by (cases a) simp_all
  qed
qed

text \<open>
  Claim C5. For every argument list \<open>execute\<close> returns a promise and never throws:
  the arguments reach the stored kernel as they were passed. If the invocation throws
  \<open>e\<close>, the promise is rejected with \<open>e\<close>; if it returns \<open>v\<close>, the promise is
  fulfilled with \<open>v\<close>. With no kernel stored, the call on \<open>null\<close> happens inside the
  \<open>try\<close> block and the promise is rejected with the type error.
\<close>

theorem execute_returns_promise:
  "(\<exists>w' p. execute call this arguments w = Inr (w', p)) \<and>
   (kernelSynchronousExecutor this = Some k \<and> call k arguments w = (w', Inl e) \<longrightarrow>
      execute call this arguments w = Inr (w', Rejected e)) \<and>
   (kernelSynchronousExecutor this = Some k \<and> call k arguments w = (w', Inr v) \<longrightarrow>
      execute call this arguments w = Inr (w', Fulfilled v)) \<and>
   (kernelSynchronousExecutor this = None \<longrightarrow>
      execute call this arguments w = Inr (w, Rejected TypeError))"
  unfolding execute_def forwarded_arguments
  by (auto simp: newPromise_def split: option.splits prod.splits)

theorem execute_returns_promise_witness:
  "execute sample_call (webgl_gpu\<lparr>kernelSynchronousExecutor := Some 0\<rparr>) [] 0
     = Inr (1, Rejected (External (Str ''no input''))) \<and>
   execute sample_call (webgl_gpu\<lparr>kernelSynchronousExecutor := Some 0\<rparr>) [Num 3] 0
     = Inr (1, Fulfilled (Num 3)) \<and>
   execute sample_call (webgl_gpu\<lparr>kernelSynchronousExecutor := Some 0\<rparr>) [Num 3, Num 4] 0
     = Inr (1, Fulfilled (Num 3)) \<and>
   execute sample_call webgl_gpu [Num 3] 0 = Inr (0, Rejected TypeError)"
proof -
  have k: "kernelSynchronousExecutor (webgl_gpu\<lparr>kernelSynchronousExecutor := Some 0\<rparr>) = Some 0"
    by simp
  have n: "kernelSynchronousExecutor webgl_gpu = None"
    by (simp add: webgl_gpu_def)
  have c0: "sample_call 0 [] 0 = (1, Inl (External (Str ''no input'')))"
    by (simp add: sample_call_def)
  have c1: "sample_call 0 [Num 3] 0 = (1, Inr (Num 3))"
    by (simp add: sample_call_def)
  have c2: "sample_call 0 [Num 3, Num 4] 0 = (1, Inr (Num 3))"
    by (simp add: sample_call_def)
  show ?thesis
    using execute_returns_promise [of sample_call "webgl_gpu\<lparr>kernelSynchronousExecutor := Some 0\<rparr>"
        "[]" 0 0 1 "External (Str ''no input'')"]
      execute_returns_promise [of sample_call "webgl_gpu\<lparr>kernelSynchronousExecutor := Some 0\<rparr>"
        "[Num 3]" 0 0 1 _ "Num 3"]
      execute_returns_promise [of sample_call "webgl_gpu\<lparr>kernelSynchronousExecutor := Some 0\<rparr>"
        "[Num 3, Num 4]" 0 0 1 _ "Num 3"]
      execute_returns_promise [of sample_call webgl_gpu "[Num 3]" 0]
      k n c0 c1 c2
    by simp
qed

text \<open>
  Claim C6, as amended. The claim says that the downgrade to the CPU mode happens only
  when no mode was forced. The constructor overwrites the mode whenever the capability
  probe fails: with a failing probe every construction, with or without settings and
  whatever mode they give, emits the warning and builds the CPU runner without throwing;
  with a succeeding probe no warning is emitted, and the mode is \<open>cpu\<close> only when the
  settings ask for it.
\<close>

theorem constructor_downgrade:
  "constructor False None = ([fallback_warning], Inr cpu_gpu) \<and>
   constructor False (Some x) =
     ([fallback_warning],
      Inr \<lparr>gpu_canvas = s_canvas x, gpu_webGl = s_webGl x, kernelSynchronousExecutor = None,
           gpu_runner = Some (CPURunner \<lparr>rs_canvas = s_canvas x, rs_webGl = s_webGl x\<rparr>)\<rparr>) \<and>
   fst (constructor True s) = [] \<and>
   (constructor True (Some x) = ([], Inr g) \<and> mode g = Inr ''cpu'' \<longrightarrow>
      map_option toLowerCase (s_mode x) = Some ''cpu'')"
proof (intro conjI impI)
  show "constructor False None = ([fallback_warning], Inr cpu_gpu)"
    by (simp add: constructor_def Let_def no_settings_def cpu_gpu_def toLowerCase_cpu)
  show "constructor False (Some x) =
     ([fallback_warning],
      Inr \<lparr>gpu_canvas = s_canvas x, gpu_webGl = s_webGl x, kernelSynchronousExecutor = None,
           gpu_runner = Some (CPURunner \<lparr>rs_canvas = s_canvas x, rs_webGl = s_webGl x\<rparr>)\<rparr>)"
    by (simp add: constructor_def Let_def toLowerCase_cpu)
  show "fst (constructor True s) = []"
    by (simp add: constructor_def Let_def)
next
  assume a: "constructor True (Some x) = ([], Inr g) \<and> mode g = Inr ''cpu''"
  have nw: "toLowerCase ''webgl'' \<noteq> ''cpu''"
    by (simp add: toLowerCase_webgl)
  from a show "map_option toLowerCase (s_mode x) = Some ''cpu''"
    using nw
    by (auto simp: constructor_def Let_def mode_def mode_or_default_def
        split: if_splits option.splits)
qed

theorem constructor_downgrade_witness:
  "constructor False None = ([fallback_warning], Inr cpu_gpu) \<and>
   constructor False (Some (mode_settings ''webgl-validator'')) = ([fallback_warning], Inr cpu_gpu) \<and>
   constructor True (Some (mode_settings ''CPU'')) = ([], Inr cpu_gpu) \<and>
   mode cpu_gpu = Inr ''cpu'' \<and>
   map_option toLowerCase (s_mode (mode_settings ''CPU'')) = Some ''cpu''"
proof -
  have c: "constructor True (Some (mode_settings ''CPU'')) = ([], Inr cpu_gpu)"
    by code_simp
  have l: "map_option toLowerCase (s_mode (mode_settings ''CPU'')) = Some ''cpu''"
    by code_simp
  have m: "mode cpu_gpu = Inr ''cpu''"
    by (simp add: mode_def cpu_gpu_def)
  show ?thesis
    using c m l constructor_downgrade [of "mode_settings ''webgl-validator''" None cpu_gpu]
      constructor_downgrade [of "mode_settings ''CPU''" None cpu_gpu]
    by (simp add: mode_settings_def cpu_gpu_def)
qed

text \<open>
  Claim C6 as stated fails: with a failing probe an explicit mode \<open>gpu\<close> is downgraded
  to the CPU runner with the warning.
\<close>

theorem forced_mode_downgraded_counterexample:
  "constructor False (Some (mode_settings ''gpu'')) = ([fallback_warning], Inr cpu_gpu) \<and>
   s_mode (mode_settings ''gpu'') = Some ''gpu''"
  by code_simp

text \<open>
  Claim C7, as amended. When the capability probe succeeds and the settings give a mode
  that is not empty and that, in lower case, is none of \<open>cpu\<close>, \<open>gpu\<close>, \<open>webgl\<close> and
  \<open>webgl-validator\<close>, the constructor throws \<open>Error\<close> with the message that the mode
  is not defined, and no warning is emitted.
\<close>

theorem constructor_unknown_mode:
  assumes "s_mode x = Some m" and "m \<noteq> []"
    and "toLowerCase m \<notin> {''cpu'', ''gpu'', ''webgl'', ''webgl-validator''}"
  shows "constructor True (Some x) = ([], Inl (Error (mode_not_defined m)))"
  using assms by (simp add: constructor_def Let_def mode_or_default_def)

theorem constructor_unknown_mode_witness:
  "s_mode (mode_settings ''bogus'') = Some ''bogus'' \<and> ''bogus'' \<noteq> [] \<and>
   toLowerCase ''bogus'' \<notin> {''cpu'', ''gpu'', ''webgl'', ''webgl-validator''} \<and>
   constructor True (Some (mode_settings ''bogus'')) = ([], Inl (Error (mode_not_defined ''bogus'')))"
proof -
  have s: "s_mode (mode_settings ''bogus'') = Some ''bogus''"
    by (simp add: mode_settings_def)
  have n: "''bogus'' \<noteq> []" by simp
  have u: "toLowerCase ''bogus'' \<notin> {''cpu'', ''gpu'', ''webgl'', ''webgl-validator''}"
    by code_simp
  show ?thesis
    using s n u constructor_unknown_mode [OF s n u] by simp
qed

text \<open>
  Claim C7 as stated fails: the mode \<open>bogus\<close> is accepted when the probe fails (the CPU
  runner is built), the mode \<open>CPU\<close> is recognised since the comparison is made in lower
  case, and the empty mode is replaced by the default \<open>webgl\<close>.
\<close>

theorem unknown_mode_accepted_counterexample:
  "constructor False (Some (mode_settings ''bogus'')) = ([fallback_warning], Inr cpu_gpu) \<and>
   constructor True (Some (mode_settings ''CPU'')) = ([], Inr cpu_gpu) \<and>
   constructor True (Some (mode_settings '''')) = ([], Inr webgl_gpu)"
  by code_simp

text \<open>
  Claim C8. \<open>createKernel\<close> throws when \<open>fn\<close> is \<open>undefined\<close> (\<open>Missing fn parameter\<close>)
  and when \<open>fn\<close> is not a function, such as the number 42 (\<open>fn parameter not a
  function\<close>). Otherwise it passes the function and the settings, or empty settings,
  to \<open>buildKernel\<close> of its runner, stores the kernel that comes back as the executor
  and returns it.
\<close>

theorem createKernel_contract:
  "(fn = Undefined \<longrightarrow>
      createKernel buildKernel this h fn settings = Inl (Thrown ''Missing fn parameter'')) \<and>
   (fn \<noteq> Undefined \<and> \<not> isFunction fn \<longrightarrow>
      createKernel buildKernel this h fn settings = Inl (Thrown ''fn parameter not a function'')) \<and>
   (isFunction fn \<and> gpu_runner this = Some r \<and>
    buildKernel r fn (case settings of None \<Rightarrow> [] | Some s \<Rightarrow> s) h = Inr (k, h') \<longrightarrow>
      createKernel buildKernel this h fn settings
        = Inr (this\<lparr>kernelSynchronousExecutor := Some k\<rparr>, h', k))"
  by (auto simp: createKernel_def)

theorem createKernel_contract_witness:
  "createKernel sample_build webgl_gpu two_kernels Undefined (Some []) = Inl (Thrown ''Missing fn parameter'') \<and>
   createKernel sample_build webgl_gpu two_kernels (Num 42) (Some []) = Inl (Thrown ''fn parameter not a function'') \<and>
   createKernel sample_build webgl_gpu two_kernels (Fun 7) None
     = Inr (webgl_gpu\<lparr>kernelSynchronousExecutor := Some 5\<rparr>, two_kernels(5 := first_kernel), 5)"
proof -
  have r: "gpu_runner webgl_gpu = Some (WebGLRunner \<lparr>rs_canvas = None, rs_webGl = None\<rparr> DefaultKernel)"
    by (simp add: webgl_gpu_def)
  have b: "sample_build (WebGLRunner \<lparr>rs_canvas = None, rs_webGl = None\<rparr> DefaultKernel) (Fun 7)
             (case None of None \<Rightarrow> [] | Some s \<Rightarrow> s) two_kernels = Inr (5, two_kernels(5 := first_kernel))"
    by (simp add: sample_build_def)
  show ?thesis
    using createKernel_contract [of Undefined sample_build webgl_gpu two_kernels "Some []"]
      createKernel_contract [of "Num 42" sample_build webgl_gpu two_kernels "Some []"]
      createKernel_contract [of "Fun 7" sample_build webgl_gpu two_kernels None
        "WebGLRunner \<lparr>rs_canvas = None, rs_webGl = None\<rparr> DefaultKernel" 5 "two_kernels(5 := first_kernel)"]
      r b
    by simp
qed

text \<open>
  Claim C9, as amended. \<open>getCanvas\<close> returns the canvas of the stored executor when there
  is one, as after a successful \<open>createKernel\<close>. It makes no test of the executor:
  with none stored, as on every newly constructed object, it fails with the type error of
  reading a property of \<open>null\<close>.
\<close>

theorem getCanvas_contract:
  "(constructor probe s = (warnings, Inr g) \<longrightarrow> getCanvas g h = Inl TypeError) \<and>
   (kernelSynchronousExecutor this = None \<longrightarrow> getCanvas this h = Inl TypeError) \<and>
   (kernelSynchronousExecutor this = Some k \<longrightarrow> getCanvas this h = Inr (canvas (h k))) \<and>
   (createKernel buildKernel this h fn settings = Inr (this', h', k') \<longrightarrow>
      getCanvas this' h' = Inr (canvas (h' k')))"
proof (intro conjI impI)
  assume "constructor probe s = (warnings, Inr g)"
  then have "kernelSynchronousExecutor g = None"
    by (auto simp: constructor_def Let_def split: if_splits)
  then show "getCanvas g h = Inl TypeError"
    by (simp add: getCanvas_def)
next
  assume "createKernel buildKernel this h fn settings = Inr (this', h', k')"
  then have "kernelSynchronousExecutor this' = Some k'"
    by (auto simp: createKernel_def split: if_splits option.splits sum.splits)
  then show "getCanvas this' h' = Inr (canvas (h' k'))"
    by (simp add: getCanvas_def)
qed (simp_all add: getCanvas_def)

theorem getCanvas_contract_witness:
  "constructor True None = ([], Inr webgl_gpu) \<and>
   getCanvas webgl_gpu two_kernels = Inl TypeError \<and>
   createKernel sample_build webgl_gpu two_kernels (Fun 7) None
     = Inr (webgl_gpu\<lparr>kernelSynchronousExecutor := Some 5\<rparr>, two_kernels(5 := first_kernel), 5) \<and>
   getCanvas (webgl_gpu\<lparr>kernelSynchronousExecutor := Some 5\<rparr>) (two_kernels(5 := first_kernel)) = Inr (Some 10)"
proof -
  have c: "constructor True None = ([], Inr webgl_gpu)"
    by code_simp
  have n: "kernelSynchronousExecutor webgl_gpu = None"
    by (simp add: webgl_gpu_def)
  have k: "createKernel sample_build webgl_gpu two_kernels (Fun 7) None
     = Inr (webgl_gpu\<lparr>kernelSynchronousExecutor := Some 5\<rparr>, two_kernels(5 := first_kernel), 5)"
    by (simp add: createKernel_def sample_build_def webgl_gpu_def)
  show ?thesis
    using c n k
      getCanvas_contract [where probe = True and s = None and warnings = "[]" and g = webgl_gpu
        and h = two_kernels and this = webgl_gpu and buildKernel = sample_build and fn = "Fun 7"
        and settings = None and this' = "webgl_gpu\<lparr>kernelSynchronousExecutor := Some 5\<rparr>"
        and h' = "two_kernels(5 := first_kernel)" and k' = 5]
    by (simp add: first_kernel_def plain_kernel_def)
qed

text \<open>
  Claim C9 as stated fails: on a new object \<open>getCanvas\<close> does not fail by a check of its
  own but with the type error raised by the read on \<open>null\<close>.
\<close>

theorem getCanvas_unchecked_counterexample:
  "constructor True None = ([], Inr webgl_gpu) \<and>
   kernelSynchronousExecutor webgl_gpu = None \<and>
   getCanvas webgl_gpu two_kernels = Inl TypeError"
proof -
  have "constructor True None = ([], Inr webgl_gpu)"
    by code_simp
  then show ?thesis
    by (simp add: webgl_gpu_def getCanvas_def)
qed

end
